theory Spec2Isabelle
  imports Complex_Main "HOL-Library.Word"
begin

section \<open>JavaScript values used by the client\<close>

text \<open>
  A JavaScript string is a sequence of UTF-16 code units, and \<open>.length\<close> counts code
  units. The literals of the source are ASCII or Latin-1 (o with diaeresis is written
  \<open>CHR 0xF6\<close>, a with ring \<open>CHR 0xE5\<close>); \<open>js\<close> embeds such a literal, one code unit per
  character.
\<close>

type_synonym jsstring = "16 word list"

definition unit_of_char :: "char \<Rightarrow> 16 word" where
  "unit_of_char c = of_nat (of_char c)"

definition js :: "string \<Rightarrow> jsstring" where
  "js s = map unit_of_char s"

text \<open>
  An optional property of a JSON object is \<open>None\<close> when the object does not carry it; a
  property that is present has the type the backend gives it. For the properties that the
  code only tests for truthiness (\<open>cities\<close>, \<open>temperatures\<close>, \<open>average\<close>, \<open>station_name\<close>,
  \<open>time_range\<close>, \<open>months\<close>, \<open>detail\<close>) a \<open>null\<close> behaves as absence and is \<open>None\<close> as well. A
  \<open>city\<close> that is \<open>null\<close> is not represented: the code would print it as the text \<open>null\<close>.
  \<open>truthy_str\<close> is the truth value JavaScript gives an optional string (\<open>undefined\<close>
  and the empty string are falsy); arrays and objects are always truthy, so for them
  truthiness is \<open>\<noteq> None\<close>. \<open>to_str\<close> is the conversion a template literal and a
  property key apply (\<open>undefined\<close> becomes the text \<open>undefined\<close>).
\<close>

definition truthy_str :: "jsstring option \<Rightarrow> bool" where
  "truthy_str v = (case v of None \<Rightarrow> False | Some s \<Rightarrow> s \<noteq> [])"

definition to_str :: "jsstring option \<Rightarrow> jsstring" where
  "to_str v = (case v of None \<Rightarrow> js ''undefined'' | Some s \<Rightarrow> s)"

section \<open>The backend payload (TemperatureChart.vue, prop \<open>data\<close>)\<close>

text \<open>
  A reading is a number or \<open>null\<close>. The payload is the JSON object of the response; each
  field is optional, as in the two response shapes of the backend.
\<close>

type_synonym reading = "real option"

record time_range_obj =
  tr_start :: jsstring
  tr_end :: jsstring

record payload =
  months :: "jsstring list option"
  cities :: "(jsstring \<times> reading list) list option"
  average :: "reading list option"
  city :: "jsstring option"
  temperatures :: "reading list option"
  station_name :: "jsstring option"
  station_id :: "int option"
  period :: "jsstring option"
  time_range :: "time_range_obj option"

text \<open>
  \<open>cities\<close> holds the entries of the object in the order of \<open>Object.entries\<close>.
\<close>

section \<open>TemperatureChart.vue\<close>

subsection \<open>Colours\<close>

text \<open>
  A colour is the CSS text \<open>rgb(r, g, b)\<close>, kept as its three numbers. Reading
  \<open>CITY_COLORS[cityName]\<close> for a name that is no key of the table but a member of
  \<open>Object.prototype\<close> yields that inherited member, which is truthy and is returned as
  it is (\<open>Inherited\<close>).
\<close>

datatype color = Rgb nat nat nat | Inherited jsstring

definition CITY_COLORS :: "(jsstring \<times> color) list" where
  "CITY_COLORS =
    [(js ''Stockholm'', Rgb 54 162 235),
     (js (''G'' @ [CHR 0xF6] @ ''teborg''), Rgb 255 99 132),
     (js (''Malm'' @ [CHR 0xF6]), Rgb 75 192 192),
     (js ''Uppsala'', Rgb 255 159 64),
     (js (''Ume'' @ [CHR 0xE5]), Rgb 153 102 255),
     (js ''Average'', Rgb 0 0 0)]"

definition Object_prototype_keys :: "jsstring list" where
  "Object_prototype_keys =
    [js ''constructor'', js ''hasOwnProperty'', js ''isPrototypeOf'',
     js ''propertyIsEnumerable'', js ''toLocaleString'', js ''toString'', js ''valueOf'',
     js ''__proto__'', js ''__defineGetter__'', js ''__defineSetter__'',
     js ''__lookupGetter__'', js ''__lookupSetter__'']"

definition CITY_COLORS_get :: "jsstring \<Rightarrow> color option" where
  "CITY_COLORS_get key =
    (case map_of CITY_COLORS key of
       Some c \<Rightarrow> Some c
     | None \<Rightarrow> if key \<in> set Object_prototype_keys then Some (Inherited key) else None)"

text \<open>
  \<open>Math.random\<close> is a source of numbers outside the program: \<open>rnd i\<close> stands for the
  \<open>i\<close>-th draw, and \<open>floor_random_255 rnd i\<close> for the value of
  \<open>Math.floor(Math.random() * 255)\<close> at that draw, a whole number from 0 to 254. Every
  function that may draw takes the number of draws made so far and returns the new one.
\<close>

type_synonym random_source = "nat \<Rightarrow> nat"

definition floor_random_255 :: "random_source \<Rightarrow> nat \<Rightarrow> nat" where
  "floor_random_255 rnd i = rnd i mod 255"

definition getCityColor :: "random_source \<Rightarrow> nat \<Rightarrow> jsstring option \<Rightarrow> color \<times> nat" where
  "getCityColor rnd k cityName =
    (case CITY_COLORS_get (to_str cityName) of
       Some c \<Rightarrow> (c, k)
     | None \<Rightarrow>
         (Rgb (floor_random_255 rnd k) (floor_random_255 rnd (k + 1))
            (floor_random_255 rnd (k + 2)),
          k + 3))"

subsection \<open>Datasets\<close>

record dataset =
  label :: "jsstring option"
  data :: "reading list"
  borderColor :: color
  backgroundColor :: color
  borderWidth :: "nat option"
  tension :: real
  pointRadius :: nat

text \<open>The loop over \<open>Object.entries(props.data.cities)\<close>: one push per entry.\<close>

fun cityDatasets ::
  "random_source \<Rightarrow> nat \<Rightarrow> (jsstring \<times> reading list) list \<Rightarrow> dataset list \<times> nat" where
  "cityDatasets rnd k [] = ([], k)"
| "cityDatasets rnd k ((cityName, temps) # rest) =
    (let (border, k1) = getCityColor rnd k (Some cityName);
         (background, k2) = getCityColor rnd k1 (Some cityName);
         (ds, k3) = cityDatasets rnd k2 rest
     in (\<lparr>label = Some cityName, data = temps, borderColor = border,
          backgroundColor = background, borderWidth = None, tension = 3 / 10,
          pointRadius = 3\<rparr> # ds, k3))"

text \<open>The single-city branch; the label carries the station name when it differs.\<close>

definition singleLabel :: "payload \<Rightarrow> jsstring option" where
  "singleLabel d =
    (if truthy_str (station_name d) \<and> station_name d \<noteq> city d
     then Some (to_str (city d) @ js '' ('' @ to_str (station_name d) @ js '')'')
     else city d)"

definition singleDataset ::
  "random_source \<Rightarrow> nat \<Rightarrow> payload \<Rightarrow> reading list \<Rightarrow> dataset \<times> nat" where
  "singleDataset rnd k d temps =
    (let cityName = city d;
         (border, k1) = getCityColor rnd k cityName;
         (background, k2) = getCityColor rnd k1 cityName
     in (\<lparr>label = singleLabel d, data = temps, borderColor = border,
          backgroundColor = background, borderWidth = None, tension = 3 / 10,
          pointRadius = 3\<rparr>, k2))"

definition averageDataset :: "reading list \<Rightarrow> dataset" where
  "averageDataset avg =
    \<lparr>label = Some (js ''Average''), data = avg,
     borderColor = the (map_of CITY_COLORS (js ''Average'')),
     backgroundColor = the (map_of CITY_COLORS (js ''Average'')),
     borderWidth = Some 3, tension = 3 / 10, pointRadius = 4\<rparr>"

text \<open>
  The width a line is drawn with is the dataset's \<open>borderWidth\<close> and, for a dataset that
  sets none, the default of the charting library for line elements. That default is a
  setting of the library and not of this repository, so it is a parameter here; Chart.js
  documents it as 3.
\<close>

definition line_width :: "nat \<Rightarrow> dataset \<Rightarrow> nat" where
  "line_width library_default x =
    (case borderWidth x of None \<Rightarrow> library_default | Some w \<Rightarrow> w)"

definition buildDatasets :: "random_source \<Rightarrow> nat \<Rightarrow> payload \<Rightarrow> dataset list \<times> nat" where
  "buildDatasets rnd k d =
    (let (ds, k') =
           (case cities d of
              Some entries \<Rightarrow> cityDatasets rnd k entries
            | None \<Rightarrow>
                (case temperatures d of
                   Some temps \<Rightarrow> (let (x, k1) = singleDataset rnd k d temps in ([x], k1))
                 | None \<Rightarrow> ([], k)))
     in (case average d of
           Some avg \<Rightarrow> (ds @ [averageDataset avg], k')
         | None \<Rightarrow> (ds, k')))"

subsection \<open>The chart configuration\<close>

text \<open>
  The parts of the configuration that depend on the payload or the title. The remaining
  options (chart type, \<open>responsive\<close>, the \<open>display\<close> flags, the font size, the y-axis
  title and the tooltip formatter) are the same constants in every configuration.
\<close>

datatype title_text = Line jsstring | Lines "jsstring list"

record ticks =
  maxTicksLimit :: nat
  maxRotation :: nat
  minRotation :: nat

record chart_config =
  labels :: "jsstring list option"
  datasets :: "dataset list"
  title_text :: title_text
  x_title_text :: jsstring
  x_ticks :: "ticks option"

definition xAxisTitle :: "payload \<Rightarrow> jsstring" where
  "xAxisTitle d =
    (if period d = Some (js ''historical'') then js ''Year-Month''
     else if period d = Some (js ''monthly'') then js ''Year-Month (Last 12 Months)''
     else js ''Month'')"

definition historicalInfo :: "jsstring \<Rightarrow> payload \<Rightarrow> chart_config \<Rightarrow> chart_config" where
  "historicalInfo title d cfg =
    (if period d = Some (js ''historical'') then
       (case time_range d of
          Some tr \<Rightarrow>
            (let cfg1 = cfg\<lparr>title_text :=
                   Lines [title, js ''Data range: '' @ tr_start tr @ js '' to '' @ tr_end tr]\<rparr>
             in (case months d of
                   Some ms \<Rightarrow>
                     if length ms > 30
                     then cfg1\<lparr>x_ticks :=
                            Some \<lparr>maxTicksLimit = 20, maxRotation = 45, minRotation = 45\<rparr>\<rparr>
                     else cfg1
                 | None \<Rightarrow> cfg1))
        | None \<Rightarrow> cfg)
     else cfg)"

definition monthlyInfo :: "jsstring \<Rightarrow> payload \<Rightarrow> chart_config \<Rightarrow> chart_config" where
  "monthlyInfo title d cfg =
    (if period d = Some (js ''monthly'') then
       (case time_range d of
          Some tr \<Rightarrow>
            cfg\<lparr>title_text :=
              Lines [title, js ''Monthly data from '' @ tr_start tr @ js '' to '' @ tr_end tr]\<rparr>
        | None \<Rightarrow> cfg)
     else cfg)"

text \<open>
  \<open>chartConfig\<close> is the body of \<open>createChart\<close> after its guard: the datasets, the
  configuration object and the two additions for historical and monthly data.
  \<open>createChart\<close> returns \<open>None\<close> where the source returns early (no canvas, no data).
\<close>

definition chartConfig ::
  "random_source \<Rightarrow> nat \<Rightarrow> jsstring \<Rightarrow> payload \<Rightarrow> chart_config \<times> nat" where
  "chartConfig rnd k title d =
    (let (ds, k') = buildDatasets rnd k d;
         cfg = \<lparr>labels = months d, datasets = ds, title_text = Line title,
                x_title_text = xAxisTitle d, x_ticks = None\<rparr>
     in (monthlyInfo title d (historicalInfo title d cfg), k'))"

definition createChart ::
  "random_source \<Rightarrow> nat \<Rightarrow> bool \<Rightarrow> jsstring \<Rightarrow> payload option \<Rightarrow> chart_config option \<times> nat"
  where
  "createChart rnd k chartCanvas title props_data =
    (case props_data of
       None \<Rightarrow> (None, k)
     | Some d \<Rightarrow>
         if \<not> chartCanvas then (None, k)
         else (let (cfg, k') = chartConfig rnd k title d in (Some cfg, k')))"

text \<open>
  A payload is covered by the palette when every name that \<open>getCityColor\<close> is asked
  about is a key of \<open>CITY_COLORS\<close>.
\<close>

definition palette_covered :: "payload \<Rightarrow> bool" where
  "palette_covered d =
    (case cities d of
       Some entries \<Rightarrow> list_all (\<lambda>(n, t). map_of CITY_COLORS n \<noteq> None) entries
     | None \<Rightarrow>
         (case temperatures d of
            Some temps \<Rightarrow> map_of CITY_COLORS (to_str (city d)) \<noteq> None
          | None \<Rightarrow> True))"

section \<open>The reactive state of the views\<close>

text \<open>
  City objects live in the JavaScript heap and are shared by reference: the object that
  \<open>CitySearch\<close> emits is the one \<open>selectedCity\<close> then refers to. The store \<open>heap\<close> maps an
  address to the object there; addresses below \<open>next_addr\<close> are allocated. A City from
  the search carries \<open>id\<close>, \<open>name\<close>, \<open>latitude\<close> and \<open>longitude\<close>; one made by
  \<open>selectMajorCity\<close> only \<open>id\<close> and \<open>name\<close>. \<open>fetchCityData\<close> adds \<open>station_name\<close> and
  \<open>station_id\<close>.
\<close>

type_synonym addr = nat

record city_obj =
  city_id :: "int option"
  name :: jsstring
  latitude :: "real option"
  longitude :: "real option"
  city_station_name :: "jsstring option"
  city_station_id :: "int option"

datatype js_error = TypeError

text \<open>
  \<open>view_state\<close> holds the refs of \<open>CitySearch.vue\<close> (\<open>searchTerm\<close>, \<open>results\<close>, and its
  \<open>loading\<close> and \<open>error\<close> as \<open>search_loading\<close> and \<open>search_error\<close>) and the refs that both
  variants of the top-level view have. \<open>requests\<close> is the list of the URLs passed to
  \<open>axios.get\<close>, in call order; \<open>uncaught\<close> lists the exceptions that left an async
  function (unhandled promise rejections). \<open>app_state\<close> adds the two flags of
  \<open>App.vue\<close>.
\<close>

record view_state =
  heap :: "addr \<Rightarrow> city_obj"
  next_addr :: addr
  requests :: "jsstring list"
  uncaught :: "js_error list"
  searchTerm :: jsstring
  results :: "addr list"
  search_loading :: bool
  search_error :: jsstring
  chartData :: "payload option"
  loading :: bool
  error :: jsstring
  selectedCity :: "addr option"

record app_state = view_state +
  showHistorical :: bool
  showMonthly :: bool

text \<open>
  How a request settles. \<open>axios\<close> rejects with an error that has a \<open>response\<close> (status
  and body) when the server answered outside 2xx, and with one that has none on a network
  failure or a timeout. A body is \<open>None\<close> when it is the JSON value \<open>null\<close>; a body that is
  an object (or a text, which has no \<open>detail\<close> property) is \<open>Some\<close>. \<open>detail\<close> is the
  string of the backend's error object.
\<close>

record error_body =
  detail :: "jsstring option"

datatype failure = NoResponse | ErrorResponse nat "error_body option"

datatype 'a outcome = Resolved 'a | Rejected failure

text \<open>
  An async function is split at its \<open>await\<close>: the function of the source's name is the
  part that runs at the call, up to the dispatch of the request; \<open>_resume\<close> is the part
  that runs when the request settles (\<open>try\<close> continuation or \<open>catch\<close>, then \<open>finally\<close>).
\<close>

section \<open>CitySearch.vue\<close>

text \<open>
  The number of characters (Unicode code points) of a string: a high surrogate followed
  by a low surrogate is one character of two code units. The source never computes it;
  \<open>.length\<close> is \<open>length\<close>, the number of code units.
\<close>

definition is_high_surrogate :: "16 word \<Rightarrow> bool" where
  "is_high_surrogate c = (0xD800 \<le> unat c \<and> unat c \<le> 0xDBFF)"

definition is_low_surrogate :: "16 word \<Rightarrow> bool" where
  "is_low_surrogate c = (0xDC00 \<le> unat c \<and> unat c \<le> 0xDFFF)"

fun code_points :: "jsstring \<Rightarrow> nat" where
  "code_points [] = 0"
| "code_points [c] = 1"
| "code_points (h # l # rest) =
    (if is_high_surrogate h \<and> is_low_surrogate l then Suc (code_points rest)
     else Suc (code_points (l # rest)))"

definition searchCity :: "jsstring \<Rightarrow> 'a view_state_scheme \<Rightarrow> 'a view_state_scheme" where
  "searchCity origin s =
    (if searchTerm s = [] \<or> length (searchTerm s) < 2 then
       s\<lparr>search_error := js ''Please enter at least 2 characters''\<rparr>
     else
       s\<lparr>search_loading := True, search_error := [],
         requests := requests s @ [origin @ js ''/api/cities/search/'' @ searchTerm s]\<rparr>)"

text \<open>
  The response of the search is an array of City objects; parsing it puts them into the
  heap, and \<open>results\<close> refers to them.
\<close>

definition store_cities :: "city_obj list \<Rightarrow> 'a view_state_scheme \<Rightarrow> 'a view_state_scheme" where
  "store_cities cs s =
    s\<lparr>heap := (\<lambda>a. if next_addr s \<le> a \<and> a < next_addr s + length cs
                    then cs ! (a - next_addr s) else heap s a),
      next_addr := next_addr s + length cs,
      results := [next_addr s ..< next_addr s + length cs]\<rparr>"

definition searchCity_resume ::
  "city_obj list outcome \<Rightarrow> 'a view_state_scheme \<Rightarrow> 'a view_state_scheme" where
  "searchCity_resume r s =
    (case r of
       Resolved cs \<Rightarrow>
         (let s1 = store_cities cs s;
              s2 = (if length cs = 0 then s1\<lparr>search_error := js ''No matching cities found''\<rparr>
                    else s1)
          in s2\<lparr>search_loading := False\<rparr>)
     | Rejected f \<Rightarrow>
         s\<lparr>search_error := js ''Error searching for cities. Please try again.'',
           search_loading := False\<rparr>)"

text \<open>
  \<open>selectCity\<close> emits \<open>city-selected\<close>, which runs the parent's handler at once, and then
  clears the result list.
\<close>

definition selectCity ::
  "(addr \<Rightarrow> 'a view_state_scheme \<Rightarrow> 'a view_state_scheme) \<Rightarrow> addr \<Rightarrow>
   'a view_state_scheme \<Rightarrow> 'a view_state_scheme" where
  "selectCity on_city_selected c s = (on_city_selected c s)\<lparr>results := []\<rparr>"

section \<open>App.vue\<close>

definition MAJOR_CITIES :: "(jsstring \<times> int) list" where
  "MAJOR_CITIES =
    [(js ''Stockholm'', 97400),
     (js (''G'' @ [CHR 0xF6] @ ''teborg''), 72420),
     (js (''Malm'' @ [CHR 0xF6]), 53430),
     (js ''Uppsala'', 97510),
     (js (''Ume'' @ [CHR 0xE5]), 140480)]"

text \<open>
  The \<open>dataType\<close> argument is one of the three literals that the template's buttons and
  \<open>toggleHistorical\<close> pass.
\<close>

datatype dataType = Recent | Monthly | Historical

definition currentDataType :: "app_state \<Rightarrow> dataType" where
  "currentDataType s =
    (if showHistorical s then Historical else if showMonthly s then Monthly else Recent)"

definition chartTitle :: "app_state \<Rightarrow> jsstring" where
  "chartTitle s =
    (case selectedCity s of
       Some c \<Rightarrow>
         js ''Temperature Data for '' @ name (heap s c) @
           (if showHistorical s then js '' (Historical)''
            else if showMonthly s then js '' (Monthly)''
            else js '' (Recent)'')
     | None \<Rightarrow> js ''Temperature Data for Major Swedish Cities'')"

definition fetchAllCitiesData :: "app_state \<Rightarrow> app_state" where
  "fetchAllCitiesData s =
    s\<lparr>loading := True, error := [], selectedCity := None, showHistorical := False,
      showMonthly := False, requests := requests s @ [js ''/api/graph/cities'']\<rparr>"

definition fetchAllCitiesData_resume :: "payload option outcome \<Rightarrow> app_state \<Rightarrow> app_state" where
  "fetchAllCitiesData_resume r s =
    (case r of
       Resolved response_data \<Rightarrow> s\<lparr>chartData := response_data, loading := False\<rparr>
     | Rejected err \<Rightarrow>
         s\<lparr>error := js ''Failed to load temperature data. Please try again later.'',
           loading := False\<rparr>)"

definition endpoint :: "jsstring \<Rightarrow> dataType \<Rightarrow> jsstring" where
  "endpoint cityName dataType =
    (if dataType = Historical then js ''/api/graph/historical/'' @ cityName
     else if dataType = Monthly then js ''/api/graph/monthly/'' @ cityName
     else js ''/api/graph/city/'' @ cityName)"

definition fetchCityData :: "jsstring \<Rightarrow> dataType \<Rightarrow> app_state \<Rightarrow> app_state" where
  "fetchCityData cityName dataType s =
    s\<lparr>loading := True, error := [], requests := requests s @ [endpoint cityName dataType]\<rparr>"

definition failed_to_load :: "jsstring \<Rightarrow> jsstring" where
  "failed_to_load cityName = js ''Failed to load data for '' @ cityName @ js ''. Please try again.''"

text \<open>
  The continuation of \<open>fetchCityData\<close>. Two property reads can throw a \<open>TypeError\<close>:
  \<open>response.data.station_name\<close> when a 2xx body is \<open>null\<close> (inside \<open>try\<close>, so the \<open>catch\<close>
  block handles it as an error without a response), and \<open>err.response.data.detail\<close> when
  a 404 body is \<open>null\<close> (inside \<open>catch\<close>, so only \<open>finally\<close> still runs and the exception
  leaves the function).
\<close>

definition fetchCityData_resume ::
  "jsstring \<Rightarrow> payload option outcome \<Rightarrow> app_state \<Rightarrow> app_state" where
  "fetchCityData_resume cityName r s =
    (case r of
       Resolved None \<Rightarrow>
         s\<lparr>error := failed_to_load cityName, chartData := None, loading := False\<rparr>
     | Resolved (Some response_data) \<Rightarrow>
         (let s1 = s\<lparr>chartData := Some response_data\<rparr>;
              s2 = (if truthy_str (station_name response_data) then
                      (case selectedCity s1 of
                         Some c \<Rightarrow>
                           s1\<lparr>heap := (heap s1)
                                (c := (heap s1 c)
                                   \<lparr>city_station_name := station_name response_data,
                                    city_station_id := station_id response_data\<rparr>)\<rparr>
                       | None \<Rightarrow> s1)
                    else s1)
          in s2\<lparr>loading := False\<rparr>)
     | Rejected NoResponse \<Rightarrow>
         s\<lparr>error := failed_to_load cityName, chartData := None, loading := False\<rparr>
     | Rejected (ErrorResponse status body) \<Rightarrow>
         if status = 404 then
           (case body of
              None \<Rightarrow> s\<lparr>loading := False, uncaught := uncaught s @ [TypeError]\<rparr>
            | Some b \<Rightarrow>
                s\<lparr>error := (if truthy_str (detail b) then to_str (detail b)
                              else js ''No data found for '' @ cityName),
                  chartData := None, loading := False\<rparr>)
         else s\<lparr>error := failed_to_load cityName, chartData := None, loading := False\<rparr>)"

definition handleCitySelect :: "addr \<Rightarrow> app_state \<Rightarrow> app_state" where
  "handleCitySelect c s =
    (let s1 = s\<lparr>selectedCity := Some c\<rparr>
     in fetchCityData (name (heap s1 c)) (currentDataType s1) s1)"

definition selectMajorCity :: "jsstring \<Rightarrow> app_state \<Rightarrow> app_state" where
  "selectMajorCity cityName s =
    (let c = next_addr s;
         s1 = s\<lparr>heap := (heap s)
                 (c := \<lparr>city_id = map_of MAJOR_CITIES cityName, name = cityName,
                        latitude = None, longitude = None, city_station_name = None,
                        city_station_id = None\<rparr>),
               next_addr := c + 1, selectedCity := Some c\<rparr>
     in fetchCityData cityName (currentDataType s1) s1)"

definition toggleDataType :: "dataType \<Rightarrow> app_state \<Rightarrow> app_state" where
  "toggleDataType dataType s =
    (case selectedCity s of
       Some c \<Rightarrow>
         (let wasHistorical = showHistorical s;
              wasMonthly = showMonthly s;
              s1 = s\<lparr>showHistorical := (dataType = Historical),
                     showMonthly := (dataType = Monthly)\<rparr>
          in if wasHistorical \<noteq> showHistorical s1 \<or> wasMonthly \<noteq> showMonthly s1
             then fetchCityData (name (heap s1 c)) dataType s1
             else s1)
     | None \<Rightarrow> s)"

definition toggleHistorical :: "bool \<Rightarrow> app_state \<Rightarrow> app_state" where
  "toggleHistorical v s = toggleDataType (if v then Historical else Recent) s"

definition goBackToAllCities :: "app_state \<Rightarrow> app_state" where
  "goBackToAllCities s =
    fetchAllCitiesData (s\<lparr>selectedCity := None, showHistorical := False, showMonthly := False\<rparr>)"

section \<open>The variant of the top-level view without the period toggle\<close>

text \<open>
  The second implementation of the top-level view has no \<open>showHistorical\<close> and
  \<open>showMonthly\<close>, builds its URLs with \<open>window.location.origin\<close> in front, and has one
  message for every failure of a city fetch. Its functions carry the suffix \<open>_plain\<close>.
\<close>

definition chartTitle_plain :: "view_state \<Rightarrow> jsstring" where
  "chartTitle_plain s =
    (case selectedCity s of
       Some c \<Rightarrow> js ''Temperature Data for '' @ name (heap s c)
     | None \<Rightarrow> js ''Temperature Data for Major Swedish Cities'')"

definition fetchAllCitiesData_plain :: "jsstring \<Rightarrow> view_state \<Rightarrow> view_state" where
  "fetchAllCitiesData_plain origin s =
    s\<lparr>loading := True, error := [], selectedCity := None,
      requests := requests s @ [origin @ js ''/api/graph/cities'']\<rparr>"

definition fetchAllCitiesData_plain_resume ::
  "payload option outcome \<Rightarrow> view_state \<Rightarrow> view_state" where
  "fetchAllCitiesData_plain_resume r s =
    (case r of
       Resolved response_data \<Rightarrow> s\<lparr>chartData := response_data, loading := False\<rparr>
     | Rejected err \<Rightarrow>
         s\<lparr>error := js ''Failed to load temperature data. Please try again later.'',
           loading := False\<rparr>)"

definition fetchCityData_plain :: "jsstring \<Rightarrow> jsstring \<Rightarrow> view_state \<Rightarrow> view_state" where
  "fetchCityData_plain origin cityName s =
    s\<lparr>loading := True, error := [],
      requests := requests s @ [origin @ js ''/api/graph/city/'' @ cityName]\<rparr>"

definition fetchCityData_plain_resume ::
  "jsstring \<Rightarrow> payload option outcome \<Rightarrow> view_state \<Rightarrow> view_state" where
  "fetchCityData_plain_resume cityName r s =
    (case r of
       Resolved response_data \<Rightarrow> s\<lparr>chartData := response_data, loading := False\<rparr>
     | Rejected err \<Rightarrow>
         s\<lparr>error := failed_to_load cityName, chartData := None, loading := False\<rparr>)"

definition handleCitySelect_plain :: "jsstring \<Rightarrow> addr \<Rightarrow> view_state \<Rightarrow> view_state" where
  "handleCitySelect_plain origin c s =
    (let s1 = s\<lparr>selectedCity := Some c\<rparr>
     in fetchCityData_plain origin (name (heap s1 c)) s1)"

definition selectMajorCity_plain :: "jsstring \<Rightarrow> jsstring \<Rightarrow> view_state \<Rightarrow> view_state" where
  "selectMajorCity_plain origin cityName s =
    (let c = next_addr s;
         s1 = s\<lparr>heap := (heap s)
                 (c := \<lparr>city_id = map_of MAJOR_CITIES cityName, name = cityName,
                        latitude = None, longitude = None, city_station_name = None,
                        city_station_id = None\<rparr>),
               next_addr := c + 1, selectedCity := Some c\<rparr>
     in fetchCityData_plain origin cityName s1)"

definition goBackToAllCities_plain :: "jsstring \<Rightarrow> view_state \<Rightarrow> view_state" where
  "goBackToAllCities_plain origin s = fetchAllCitiesData_plain origin (s\<lparr>selectedCity := None\<rparr>)"

section \<open>Interaction sequences\<close>

text \<open>
  What can happen to a mounted view: the user acts on a control that the template
  renders, or a dispatched request settles. The guards are the template's: the search
  input and button are disabled while the search is loading; a result button exists for
  each element of \<open>results\<close>; a shortcut button exists for each key of \<open>MAJOR_CITIES\<close>; the
  period buttons and the back button are rendered only while a city is selected. A
  settling event carries what the continuation closed over (\<open>cityName\<close>) and the
  outcome; requests settle in any order.
\<close>

datatype event =
    Mounted
  | Typed jsstring
  | SearchClicked
  | SearchSettled "city_obj list outcome"
  | ResultClicked nat
  | MajorCityClicked jsstring
  | DataTypeClicked dataType
  | BackClicked
  | AllCitiesSettled "payload option outcome"
  | CitySettled jsstring "payload option outcome"

definition step :: "jsstring \<Rightarrow> event \<Rightarrow> app_state \<Rightarrow> app_state" where
  "step origin e s =
    (case e of
       Mounted \<Rightarrow> fetchAllCitiesData s
     | Typed t \<Rightarrow> if search_loading s then s else s\<lparr>searchTerm := t\<rparr>
     | SearchClicked \<Rightarrow> if search_loading s then s else searchCity origin s
     | SearchSettled r \<Rightarrow> searchCity_resume r s
     | ResultClicked i \<Rightarrow>
         if i < length (results s) then selectCity handleCitySelect (results s ! i) s else s
     | MajorCityClicked cityName \<Rightarrow>
         if map_of MAJOR_CITIES cityName \<noteq> None then selectMajorCity cityName s else s
     | DataTypeClicked dataType \<Rightarrow>
         if selectedCity s \<noteq> None then toggleDataType dataType s else s
     | BackClicked \<Rightarrow> if selectedCity s \<noteq> None then goBackToAllCities s else s
     | AllCitiesSettled r \<Rightarrow> fetchAllCitiesData_resume r s
     | CitySettled cityName r \<Rightarrow> fetchCityData_resume cityName r s)"

definition step_plain :: "jsstring \<Rightarrow> event \<Rightarrow> view_state \<Rightarrow> view_state" where
  "step_plain origin e s =
    (case e of
       Mounted \<Rightarrow> fetchAllCitiesData_plain origin s
     | Typed t \<Rightarrow> if search_loading s then s else s\<lparr>searchTerm := t\<rparr>
     | SearchClicked \<Rightarrow> if search_loading s then s else searchCity origin s
     | SearchSettled r \<Rightarrow> searchCity_resume r s
     | ResultClicked i \<Rightarrow>
         if i < length (results s)
         then selectCity (handleCitySelect_plain origin) (results s ! i) s else s
     | MajorCityClicked cityName \<Rightarrow>
         if map_of MAJOR_CITIES cityName \<noteq> None then selectMajorCity_plain origin cityName s
         else s
     | DataTypeClicked dataType \<Rightarrow> s
     | BackClicked \<Rightarrow> if selectedCity s \<noteq> None then goBackToAllCities_plain origin s else s
     | AllCitiesSettled r \<Rightarrow> fetchAllCitiesData_plain_resume r s
     | CitySettled cityName r \<Rightarrow> fetchCityData_plain_resume cityName r s)"

definition blank_city :: city_obj where
  "blank_city =
    \<lparr>city_id = None, name = [], latitude = None, longitude = None, city_station_name = None,
     city_station_id = None\<rparr>"

definition init_plain :: view_state where
  "init_plain =
    \<lparr>heap = (\<lambda>a. blank_city), next_addr = 0, requests = [], uncaught = [], searchTerm = [],
     results = [], search_loading = False, search_error = [], chartData = None,
     loading = True, error = [], selectedCity = None\<rparr>"

definition init :: app_state where
  "init =
    \<lparr>heap = (\<lambda>a. blank_city), next_addr = 0, requests = [], uncaught = [], searchTerm = [],
     results = [], search_loading = False, search_error = [], chartData = None,
     loading = True, error = [], selectedCity = None, showHistorical = False,
     showMonthly = False\<rparr>"

definition run :: "jsstring \<Rightarrow> event list \<Rightarrow> app_state" where
  "run origin es = fold (step origin) es init"

definition run_plain :: "jsstring \<Rightarrow> event list \<Rightarrow> view_state" where
  "run_plain origin es = fold (step_plain origin) es init_plain"

section \<open>Example inputs\<close>

definition example_recent_31 :: payload where
  "example_recent_31 =
    \<lparr>months = Some (replicate 31 (js ''Jan'')), cities = None, average = None,
     city = Some (js ''Stockholm''), temperatures = Some (replicate 31 None),
     station_name = None, station_id = None, period = None, time_range = None\<rparr>"

definition example_historical_31 :: payload where
  "example_historical_31 =
    \<lparr>months = Some (replicate 31 (js ''2020-01'')), cities = None, average = None,
     city = Some (js ''Stockholm''), temperatures = Some (replicate 31 None),
     station_name = None, station_id = None, period = Some (js ''historical''),
     time_range = Some \<lparr>tr_start = js ''2020-01'', tr_end = js ''2022-07''\<rparr>\<rparr>"

definition example_historical_no_range :: payload where
  "example_historical_no_range =
    \<lparr>months = Some (replicate 31 (js ''2020-01'')), cities = None, average = None,
     city = Some (js ''Stockholm''), temperatures = Some (replicate 31 None),
     station_name = None, station_id = None, period = Some (js ''historical''),
     time_range = None\<rparr>"

definition example_multi :: payload where
  "example_multi =
    \<lparr>months = Some [js ''Jan'', js ''Feb''],
     cities = Some [(js ''Stockholm'', [Some 1, None]), (js ''Kiruna'', [Some (-12), Some (-10)])],
     average = Some [Some 1, Some (-10)],
     city = Some (js ''Lund''), temperatures = Some [Some 3, Some 4],
     station_name = Some (js ''Lund A''), station_id = Some 53430, period = None,
     time_range = None\<rparr>"

definition example_single :: payload where
  "example_single =
    \<lparr>months = Some [js ''Jan'', js ''Feb''], cities = None, average = None,
     city = Some (js ''Stockholm''), temperatures = Some [Some 3, None],
     station_name = Some (js ''Stockholm-Observatoriekullen A''), station_id = Some 98230,
     period = None, time_range = None\<rparr>"

text \<open>A query of one character outside the Basic Multilingual Plane (U+1F600).\<close>

definition example_astral :: jsstring where
  "example_astral = [0xD83D, 0xDE00]"

definition example_origin :: jsstring where
  "example_origin = js ''http://localhost:8080''"

text \<open>
  The all-cities view loads, the user picks Stockholm and its data loads, then the user
  goes back to all cities and that request fails without a response.
\<close>

definition example_back_fails :: "event list" where
  "example_back_fails =
    [Mounted,
     AllCitiesSettled (Resolved (Some example_multi)),
     MajorCityClicked (js ''Stockholm''),
     CitySettled (js ''Stockholm'') (Resolved (Some example_single)),
     BackClicked,
     AllCitiesSettled (Rejected NoResponse)]"

text \<open>The view is mounted, the user picks Stockholm and its data loads.\<close>

definition example_select_and_load :: "event list" where
  "example_select_and_load =
    [Mounted,
     MajorCityClicked (js ''Stockholm''),
     CitySettled (js ''Stockholm'') (Resolved (Some example_single))]"

section \<open>Relations between states\<close>

text \<open>
  \<open>core\<close> is the part of a City that the search delivers. Two URLs are the same request
  when they are equal or differ by the origin in front: \<open>main.js\<close> sets
  \<open>axios.defaults.baseURL\<close> to \<open>window.location.origin\<close>, so a URL without an origin is
  sent to that origin. \<open>sim\<close> relates a state of \<open>App.vue\<close> to a state of the variant
  without the toggle.
\<close>

definition core :: "city_obj \<Rightarrow> int option \<times> jsstring \<times> real option \<times> real option" where
  "core c = (city_id c, name c, latitude c, longitude c)"

definition same_request :: "jsstring \<Rightarrow> jsstring \<Rightarrow> jsstring \<Rightarrow> bool" where
  "same_request origin u v = (v = u \<or> v = origin @ u)"

definition sim :: "jsstring \<Rightarrow> app_state \<Rightarrow> view_state \<Rightarrow> bool" where
  "sim origin sf sp =
    (list_all2 (same_request origin) (requests sf) (requests sp) \<and>
     selectedCity sf = selectedCity sp \<and> next_addr sf = next_addr sp \<and>
     results sf = results sp \<and> searchTerm sf = searchTerm sp \<and>
     search_loading sf = search_loading sp \<and> search_error sf = search_error sp \<and>
     (\<forall>a. core (heap sf a) = core (heap sp a)) \<and>
     \<not> showHistorical sf \<and> \<not> showMonthly sf)"

section \<open>Strings: basic facts\<close>

lemma unat_unit_of_char: "unat (unit_of_char c) = of_char c"
proof -
  have a: "of_char c < (256::nat)" by simp
  have "of_char c < (65536::nat)" using a by linarith
  then show ?thesis
    unfolding unit_of_char_def by (simp add: unat_of_nat take_bit_nat_eq_self)
qed

lemma unit_of_char_eq_iff [simp]: "(unit_of_char c = unit_of_char d) = (c = d)"
proof
  assume "unit_of_char c = unit_of_char d"
  then have "unat (unit_of_char c) = unat (unit_of_char d)" by simp
  then have "(of_char c :: nat) = of_char d" by (simp only: unat_unit_of_char)
  then show "c = d" by simp
qed simp

lemma js_eq_iff [simp]: "(js a = js b) = (a = b)"
  unfolding js_def by (rule inj_map_eq_map) (simp add: inj_on_def)

lemma js_Nil [simp]: "js [] = []"
  by (simp add: js_def)

lemma js_eq_Nil [simp]: "(js a = []) = (a = [])"
  by (simp add: js_def)

lemma Nil_eq_js [simp]: "([] = js a) = (a = [])"
  by (auto simp: js_def)

lemma length_js [simp]: "length (js a) = length a"
  by (simp add: js_def)

lemma js_append: "js (a @ b) = js a @ js b"
  by (simp add: js_def)


section \<open>TemperatureChart.vue: lemmas\<close>

lemma getCityColor_palette:
  "map_of CITY_COLORS n = Some c \<Longrightarrow> getCityColor rnd k (Some n) = (c, k)"
  by (simp add: getCityColor_def CITY_COLORS_get_def to_str_def)

lemma CITY_COLORS_Average: "the (map_of CITY_COLORS (js ''Average'')) = Rgb 0 0 0"
  by (simp add: CITY_COLORS_def)

lemma cityDatasets_labels: "map label (fst (cityDatasets rnd k es)) = map (Some \<circ> fst) es"
  by (induction rnd k es rule: cityDatasets.induct) (auto split: prod.splits)

lemma cityDatasets_data: "map data (fst (cityDatasets rnd k es)) = map snd es"
  by (induction rnd k es rule: cityDatasets.induct) (auto split: prod.splits)

lemma cityDatasets_length: "length (fst (cityDatasets rnd k es)) = length es"
  by (induction rnd k es rule: cityDatasets.induct) (auto split: prod.splits)

lemma cityDatasets_style:
  "x \<in> set (fst (cityDatasets rnd k es)) \<Longrightarrow> borderWidth x = None \<and> pointRadius x = 3"
  by (induction rnd k es rule: cityDatasets.induct) (auto split: prod.splits)

lemma cityDatasets_palette_colour:
  "x \<in> set (fst (cityDatasets rnd k es)) \<Longrightarrow> label x = Some n \<Longrightarrow>
   map_of CITY_COLORS n = Some c \<Longrightarrow> borderColor x = c \<and> backgroundColor x = c"
  by (induction rnd k es rule: cityDatasets.induct)
     (auto simp: getCityColor_palette split: prod.splits)

lemma cityDatasets_palette:
  "list_all (\<lambda>(n, t). map_of CITY_COLORS n \<noteq> None) es \<Longrightarrow>
   cityDatasets rnd k es =
     (map (\<lambda>(n, t). \<lparr>label = Some n, data = t, borderColor = the (map_of CITY_COLORS n),
        backgroundColor = the (map_of CITY_COLORS n), borderWidth = None, tension = 3 / 10,
        pointRadius = 3\<rparr>) es, k)"
  by (induction rnd k es rule: cityDatasets.induct) (auto simp: getCityColor_palette split: prod.splits)

lemma datasets_historicalInfo [simp]: "datasets (historicalInfo title d cfg) = datasets cfg"
  by (simp add: historicalInfo_def Let_def split: option.splits)

lemma datasets_monthlyInfo [simp]: "datasets (monthlyInfo title d cfg) = datasets cfg"
  by (simp add: monthlyInfo_def split: option.splits)

lemma labels_historicalInfo [simp]: "labels (historicalInfo title d cfg) = labels cfg"
  by (simp add: historicalInfo_def Let_def split: option.splits)

lemma labels_monthlyInfo [simp]: "labels (monthlyInfo title d cfg) = labels cfg"
  by (simp add: monthlyInfo_def split: option.splits)

lemma x_title_text_historicalInfo [simp]:
  "x_title_text (historicalInfo title d cfg) = x_title_text cfg"
  by (simp add: historicalInfo_def Let_def split: option.splits)

lemma x_title_text_monthlyInfo [simp]: "x_title_text (monthlyInfo title d cfg) = x_title_text cfg"
  by (simp add: monthlyInfo_def split: option.splits)

lemma x_ticks_monthlyInfo [simp]: "x_ticks (monthlyInfo title d cfg) = x_ticks cfg"
  by (simp add: monthlyInfo_def split: option.splits)

lemma x_ticks_historicalInfo:
  "x_ticks (historicalInfo title d cfg) =
    (if period d = Some (js ''historical'') \<and> time_range d \<noteq> None \<and>
        (\<exists>ms. months d = Some ms \<and> 30 < length ms)
     then Some \<lparr>maxTicksLimit = 20, maxRotation = 45, minRotation = 45\<rparr>
     else x_ticks cfg)"
  by (auto simp: historicalInfo_def Let_def split: option.splits)

lemma datasets_chartConfig:
  "datasets (fst (chartConfig rnd k title d)) = fst (buildDatasets rnd k d)"
  by (simp add: chartConfig_def split: prod.splits)

lemma labels_chartConfig: "labels (fst (chartConfig rnd k title d)) = months d"
  by (simp add: chartConfig_def split: prod.splits)

lemma x_title_text_chartConfig: "x_title_text (fst (chartConfig rnd k title d)) = xAxisTitle d"
  by (simp add: chartConfig_def split: prod.splits)

lemma x_ticks_chartConfig:
  "x_ticks (fst (chartConfig rnd k title d)) =
    (if period d = Some (js ''historical'') \<and> time_range d \<noteq> None \<and>
        (\<exists>ms. months d = Some ms \<and> 30 < length ms)
     then Some \<lparr>maxTicksLimit = 20, maxRotation = 45, minRotation = 45\<rparr>
     else None)"
  by (simp add: chartConfig_def x_ticks_historicalInfo split: prod.splits)

lemma title_text_chartConfig:
  "title_text (fst (chartConfig rnd k title d)) =
     title_text (fst (chartConfig rnd' k' title d))"
  by (simp add: chartConfig_def historicalInfo_def monthlyInfo_def Let_def split: prod.splits option.splits)

lemma buildDatasets_cities:
  "cities d = Some es \<Longrightarrow>
   fst (buildDatasets rnd k d) =
     fst (cityDatasets rnd k es) @ (case average d of None \<Rightarrow> [] | Some avg \<Rightarrow> [averageDataset avg])"
  by (simp add: buildDatasets_def split: prod.splits option.splits)


lemma getCityColor_palette_key:
  "map_of CITY_COLORS (to_str v) = Some c \<Longrightarrow> getCityColor rnd k v = (c, k)"
  by (simp add: getCityColor_def CITY_COLORS_get_def)

lemma singleDataset_palette:
  "map_of CITY_COLORS (to_str (city d)) = Some c \<Longrightarrow>
   singleDataset rnd k d temps =
     (\<lparr>label = singleLabel d, data = temps, borderColor = c, backgroundColor = c,
       borderWidth = None, tension = 3 / 10, pointRadius = 3\<rparr>, k)"
  by (simp add: singleDataset_def getCityColor_palette_key)

lemma buildDatasets_single:
  "cities d = None \<Longrightarrow> temperatures d = Some temps \<Longrightarrow>
   fst (buildDatasets rnd k d) =
     fst (singleDataset rnd k d temps) #
       (case average d of None \<Rightarrow> [] | Some avg \<Rightarrow> [averageDataset avg])"
  by (simp add: buildDatasets_def split: prod.splits option.splits)

lemma buildDatasets_none:
  "cities d = None \<Longrightarrow> temperatures d = None \<Longrightarrow>
   fst (buildDatasets rnd k d) =
     (case average d of None \<Rightarrow> [] | Some avg \<Rightarrow> [averageDataset avg])"
  by (simp add: buildDatasets_def split: prod.splits option.splits)

lemma buildDatasets_palette:
  "palette_covered d \<Longrightarrow> fst (buildDatasets rnd k d) = fst (buildDatasets rnd' k' d)"
proof (cases "cities d")
  case (Some es)
  assume "palette_covered d"
  with Some have "list_all (\<lambda>(n, t). map_of CITY_COLORS n \<noteq> None) es"
    by (simp add: palette_covered_def)
  then show ?thesis
    by (simp add: buildDatasets_cities [OF Some] cityDatasets_palette)
next
  case None
  assume p: "palette_covered d"
  show ?thesis
  proof (cases "temperatures d")
    case (Some temps)
    with p None obtain c where "map_of CITY_COLORS (to_str (city d)) = Some c"
      by (auto simp: palette_covered_def)
    then show ?thesis
      by (simp add: buildDatasets_single [OF None Some] singleDataset_palette)
  next
    case None2: None
    show ?thesis
      by (simp add: buildDatasets_none [OF None None2])
  qed
qed

lemma singleDataset_label_data:
  "label (fst (singleDataset rnd k d temps)) = singleLabel d \<and>
   data (fst (singleDataset rnd k d temps)) = temps"
  by (simp add: singleDataset_def Let_def split: prod.splits)

lemma buildDatasets_labels_data:
  "map label (fst (buildDatasets rnd k d)) = map label (fst (buildDatasets rnd' k' d)) \<and>
   map data (fst (buildDatasets rnd k d)) = map data (fst (buildDatasets rnd' k' d))"
proof (cases "cities d")
  case (Some es)
  show ?thesis
    by (simp add: buildDatasets_cities [OF Some] cityDatasets_labels cityDatasets_data)
next
  case None
  show ?thesis
  proof (cases "temperatures d")
    case (Some temps)
    show ?thesis
      by (simp add: buildDatasets_single [OF None Some] singleDataset_label_data)
  next
    case None2: None
    show ?thesis
      by (simp add: buildDatasets_none [OF None None2])
  qed
qed

lemma chartConfig_fst:
  "fst (chartConfig rnd k title d) =
    monthlyInfo title d (historicalInfo title d
      \<lparr>labels = months d, datasets = fst (buildDatasets rnd k d), title_text = Line title,
       x_title_text = xAxisTitle d, x_ticks = None\<rparr>)"
  by (simp add: chartConfig_def split: prod.splits)

lemma chartConfig_palette:
  "palette_covered d \<Longrightarrow> fst (chartConfig rnd k title d) = fst (chartConfig rnd' k' title d)"
  by (simp only: chartConfig_fst buildDatasets_palette [of d rnd k rnd' k'])

lemma palette_six:
  "map_of CITY_COLORS (js ''Stockholm'') = Some (Rgb 54 162 235)"
  "map_of CITY_COLORS (js (''G'' @ [CHR 0xF6] @ ''teborg'')) = Some (Rgb 255 99 132)"
  "map_of CITY_COLORS (js (''Malm'' @ [CHR 0xF6])) = Some (Rgb 75 192 192)"
  "map_of CITY_COLORS (js ''Uppsala'') = Some (Rgb 255 159 64)"
  "map_of CITY_COLORS (js (''Ume'' @ [CHR 0xE5])) = Some (Rgb 153 102 255)"
  "map_of CITY_COLORS (js ''Average'') = Some (Rgb 0 0 0)"
  by (simp_all add: CITY_COLORS_def)

lemma single_palette_colour:
  assumes "cities d = None" "temperatures d = Some temps" "city d = Some n"
    "map_of CITY_COLORS n = Some c"
  shows "borderColor (hd (datasets (fst (chartConfig rnd k title d)))) = c \<and>
         backgroundColor (hd (datasets (fst (chartConfig rnd k title d)))) = c"
proof -
  have "map_of CITY_COLORS (to_str (city d)) = Some c"
    using assms by (simp add: to_str_def)
  then show ?thesis
    by (simp add: datasets_chartConfig buildDatasets_single [OF assms(1,2)] singleDataset_palette)
qed

lemma averageDataset_palette_colour:
  "label (averageDataset avg) = Some n \<Longrightarrow> map_of CITY_COLORS n = Some c \<Longrightarrow>
   borderColor (averageDataset avg) = c \<and> backgroundColor (averageDataset avg) = c"
  by (auto simp: averageDataset_def)

lemma multi_palette_colour:
  assumes "cities d = Some entries"
    "x \<in> set (datasets (fst (chartConfig rnd k title d)))"
    "label x = Some n" "map_of CITY_COLORS n = Some c"
  shows "borderColor x = c \<and> backgroundColor x = c"
proof -
  from assms(2) have "x \<in> set (fst (cityDatasets rnd k entries)) \<or>
      (\<exists>avg. x = averageDataset avg)"
    by (auto simp: datasets_chartConfig buildDatasets_cities [OF assms(1)] split: option.splits)
  then show ?thesis
    using assms(3,4) cityDatasets_palette_colour averageDataset_palette_colour by blast
qed


section \<open>TemperatureChart.vue: the claims\<close>

text \<open>
  Claim C2, as amended: the x-axis tick options are \<open>{maxTicksLimit: 20, maxRotation: 45,
  minRotation: 45}\<close> exactly when the payload's \<open>period\<close> is \<open>historical\<close>, its
  \<open>time_range\<close> is present and \<open>months\<close> has more than 30 labels; in every other case no
  tick options are set.
\<close>

theorem tick_policy_guarded:
  "x_ticks (fst (chartConfig rnd k title d)) =
    (if period d = Some (js ''historical'') \<and> time_range d \<noteq> None \<and>
        (\<exists>ms. months d = Some ms \<and> 30 < length ms)
     then Some \<lparr>maxTicksLimit = 20, maxRotation = 45, minRotation = 45\<rparr>
     else None)"
  by (rule x_ticks_chartConfig)

text \<open>The theorem at a historical payload of 31 labels with a time range.\<close>

theorem tick_policy_guarded_witness:
  "x_ticks (fst (chartConfig (\<lambda>i. 7) 0 (js ''Temperature Data for Stockholm (Historical)'')
      example_historical_31)) =
    Some \<lparr>maxTicksLimit = 20, maxRotation = 45, minRotation = 45\<rparr>"
  using tick_policy_guarded [of "\<lambda>i. 7" 0 "js ''Temperature Data for Stockholm (Historical)''"
      example_historical_31]
  by (simp add: example_historical_31_def)

text \<open>
  Claim C2 as stated fails: a payload of the recent shape (no \<open>period\<close>) with 31 labels has
  more than 30 labels and gets no tick options, and neither does a historical payload with
  31 labels and no \<open>time_range\<close>.
\<close>

theorem tick_policy_counterexample:
  "\<not> (x_ticks (fst (chartConfig (\<lambda>i. 7) 0 (js ''Temperature Data for Stockholm (Recent)'')
          example_recent_31)) =
        Some \<lparr>maxTicksLimit = 20, maxRotation = 45, minRotation = 45\<rparr>
      \<longleftrightarrow> 30 < length (the (months example_recent_31))) \<and>
   \<not> (x_ticks (fst (chartConfig (\<lambda>i. 7) 0
          (js ''Temperature Data for Stockholm (Historical)'') example_historical_no_range)) =
        Some \<lparr>maxTicksLimit = 20, maxRotation = 45, minRotation = 45\<rparr>
      \<longleftrightarrow> 30 < length (the (months example_historical_no_range)))"
  by (simp add: x_ticks_chartConfig example_recent_31_def example_historical_no_range_def)

text \<open>
  Claim C5, as amended: for a payload with a \<open>cities\<close> object, the datasets are one per
  entry of \<open>cities\<close>, in the order of the entries, each labelled with its key and carrying
  its readings, with point radius 3 and no \<open>borderWidth\<close> of its own, so that it is drawn
  with the library's default width; after them comes nothing when \<open>average\<close> is absent, and
  exactly one dataset when it is present, labelled \<open>Average\<close>, black, with point radius 4
  and \<open>borderWidth\<close> 3, so that it is drawn with width 3 whatever the default.
\<close>

theorem multi_city_datasets:
  "cities d = Some entries \<Longrightarrow>
   map label (take (length entries) (datasets (fst (chartConfig rnd k title d)))) =
     map (Some \<circ> fst) entries \<and>
   map data (take (length entries) (datasets (fst (chartConfig rnd k title d)))) =
     map snd entries \<and>
   (\<forall>x \<in> set (take (length entries) (datasets (fst (chartConfig rnd k title d)))).
      borderWidth x = None \<and> pointRadius x = 3 \<and> line_width w x = w) \<and>
   drop (length entries) (datasets (fst (chartConfig rnd k title d))) =
     (case average d of
        None \<Rightarrow> []
      | Some avg \<Rightarrow>
          [\<lparr>label = Some (js ''Average''), data = avg, borderColor = Rgb 0 0 0,
            backgroundColor = Rgb 0 0 0, borderWidth = Some 3, tension = 3 / 10,
            pointRadius = 4\<rparr>]) \<and>
   (\<forall>x \<in> set (drop (length entries) (datasets (fst (chartConfig rnd k title d)))).
      pointRadius x = 4 \<and> line_width w x = 3)"
proof -
  assume c: "cities d = Some entries"
  let ?cs = "fst (cityDatasets rnd k entries)"
  let ?avg = "case average d of None \<Rightarrow> [] | Some avg \<Rightarrow> [averageDataset avg]"
  have ds: "datasets (fst (chartConfig rnd k title d)) = ?cs @ ?avg"
    by (simp add: datasets_chartConfig buildDatasets_cities [OF c])
  have len: "length ?cs = length entries"
    by (rule cityDatasets_length)
  have tk: "take (length entries) (?cs @ ?avg) = ?cs"
    and dr: "drop (length entries) (?cs @ ?avg) = ?avg"
    using len by simp_all
  have avg: "?avg =
     (case average d of
        None \<Rightarrow> []
      | Some avg \<Rightarrow>
          [\<lparr>label = Some (js ''Average''), data = avg, borderColor = Rgb 0 0 0,
            backgroundColor = Rgb 0 0 0, borderWidth = Some 3, tension = 3 / 10,
            pointRadius = 4\<rparr>])"
    by (simp add: averageDataset_def CITY_COLORS_Average split: option.splits)
  have emph: "\<forall>x \<in> set ?avg. pointRadius x = 4 \<and> line_width w x = 3"
    by (cases "average d") (simp_all add: averageDataset_def line_width_def)
  have plain: "\<forall>x \<in> set ?cs. borderWidth x = None \<and> pointRadius x = 3 \<and> line_width w x = w"
    by (simp add: cityDatasets_style line_width_def)
  show ?thesis
    unfolding ds tk dr
    using avg emph plain by (simp add: cityDatasets_labels cityDatasets_data)
qed

text \<open>The theorem at a payload of two cities and an average.\<close>

theorem multi_city_datasets_witness:
  "map label (datasets (fst (chartConfig (\<lambda>i. 7) 0 (js ''Temperature Data for Major Swedish Cities'')
      example_multi))) =
    [Some (js ''Stockholm''), Some (js ''Kiruna''), Some (js ''Average'')]"
proof -
  let ?E = "[(js ''Stockholm'', [Some 1, None]), (js ''Kiruna'', [Some (-12), Some (-10)])]
      :: (jsstring \<times> reading list) list"
  let ?ds = "datasets (fst (chartConfig (\<lambda>i. 7) 0
      (js ''Temperature Data for Major Swedish Cities'') example_multi))"
  have c: "cities example_multi = Some ?E"
    by (simp add: example_multi_def)
  have a: "average example_multi = Some [Some 1, Some (-10)]"
    by (simp add: example_multi_def)
  note th = multi_city_datasets [OF c, of "\<lambda>i. 7" 0 "js ''Temperature Data for Major Swedish Cities''"]
  have 1: "map label (take (length ?E) ?ds) = map (Some \<circ> fst) ?E"
    using th by blast
  have "drop (length ?E) ?ds =
      (case average example_multi of
        None \<Rightarrow> []
      | Some avg \<Rightarrow>
          [\<lparr>label = Some (js ''Average''), data = avg, borderColor = Rgb 0 0 0,
            backgroundColor = Rgb 0 0 0, borderWidth = Some 3, tension = 3 / 10,
            pointRadius = 4\<rparr>])"
    using th by blast
  then have 2: "map label (drop (length ?E) ?ds) = [Some (js ''Average'')]"
    by (simp add: a)
  have "map label ?ds = map label (take (length ?E) ?ds @ drop (length ?E) ?ds)"
    by (simp only: append_take_drop_id)
  also have "\<dots> = map label (take (length ?E) ?ds) @ map label (drop (length ?E) ?ds)"
    by (simp only: map_append)
  also have "\<dots> = [Some (js ''Stockholm''), Some (js ''Kiruna''), Some (js ''Average'')]"
    unfolding 1 2 by simp
  finally show ?thesis .
qed

text \<open>
  Claim C5 as stated fails in its emphasis clause: the code gives the Average dataset
  larger points but no thicker line. The city datasets set no \<open>borderWidth\<close>, so under the
  library's default of 3 the line of Stockholm is as wide as the line of Average.
\<close>

theorem average_line_not_thicker_counterexample:
  "\<not> (line_width 3 (datasets (fst (chartConfig (\<lambda>i. 7) 0
          (js ''Temperature Data for Major Swedish Cities'') example_multi)) ! 0) <
        line_width 3 (datasets (fst (chartConfig (\<lambda>i. 7) 0
          (js ''Temperature Data for Major Swedish Cities'') example_multi)) ! 2)) \<and>
   label (datasets (fst (chartConfig (\<lambda>i. 7) 0
          (js ''Temperature Data for Major Swedish Cities'') example_multi)) ! 0) =
     Some (js ''Stockholm'') \<and>
   label (datasets (fst (chartConfig (\<lambda>i. 7) 0
          (js ''Temperature Data for Major Swedish Cities'') example_multi)) ! 2) =
     Some (js ''Average'')"
  by (simp add: datasets_chartConfig buildDatasets_def example_multi_def getCityColor_def
        CITY_COLORS_get_def to_str_def CITY_COLORS_def Object_prototype_keys_def
        averageDataset_def line_width_def)

text \<open>
  Claim C7: each of the six names of the palette gets its fixed colour from
  \<open>getCityColor\<close>, whatever the random source, and no draw is made; the dataset of a
  single-city payload whose \<open>city\<close> is in the palette has that colour whatever the
  station name does to its label; every dataset of a multi-city payload whose label is in
  the palette has that colour; two compositions of one payload and title are equal when
  the payload is covered by the palette; and in every case they agree on the title, the
  x-axis title, the tick options, the labels of the axis, and the labels and readings of
  the datasets, so that they can differ only in colours drawn for names outside the
  palette.
\<close>

theorem palette_colours_deterministic:
  "getCityColor rnd k (Some (js ''Stockholm'')) = (Rgb 54 162 235, k) \<and>
   getCityColor rnd k (Some (js (''G'' @ [CHR 0xF6] @ ''teborg''))) = (Rgb 255 99 132, k) \<and>
   getCityColor rnd k (Some (js (''Malm'' @ [CHR 0xF6]))) = (Rgb 75 192 192, k) \<and>
   getCityColor rnd k (Some (js ''Uppsala'')) = (Rgb 255 159 64, k) \<and>
   getCityColor rnd k (Some (js (''Ume'' @ [CHR 0xE5]))) = (Rgb 153 102 255, k) \<and>
   getCityColor rnd k (Some (js ''Average'')) = (Rgb 0 0 0, k) \<and>
   (cities d = None \<and> temperatures d = Some temps \<and> city d = Some n \<and>
      map_of CITY_COLORS n = Some c \<longrightarrow>
      borderColor (hd (datasets (fst (chartConfig rnd k title d)))) = c \<and>
      backgroundColor (hd (datasets (fst (chartConfig rnd k title d)))) = c) \<and>
   (cities d = Some entries \<longrightarrow>
      (\<forall>x \<in> set (datasets (fst (chartConfig rnd k title d))).
         label x = Some n \<and> map_of CITY_COLORS n = Some c \<longrightarrow>
         borderColor x = c \<and> backgroundColor x = c)) \<and>
   (palette_covered d \<longrightarrow>
      fst (chartConfig rnd k title d) = fst (chartConfig rnd' k' title d)) \<and>
   title_text (fst (chartConfig rnd k title d)) = title_text (fst (chartConfig rnd' k' title d)) \<and>
   x_title_text (fst (chartConfig rnd k title d)) =
     x_title_text (fst (chartConfig rnd' k' title d)) \<and>
   x_ticks (fst (chartConfig rnd k title d)) = x_ticks (fst (chartConfig rnd' k' title d)) \<and>
   labels (fst (chartConfig rnd k title d)) = labels (fst (chartConfig rnd' k' title d)) \<and>
   map label (datasets (fst (chartConfig rnd k title d))) =
     map label (datasets (fst (chartConfig rnd' k' title d))) \<and>
   map data (datasets (fst (chartConfig rnd k title d))) =
     map data (datasets (fst (chartConfig rnd' k' title d)))"
proof -
  have six: "getCityColor rnd k (Some (js ''Stockholm'')) = (Rgb 54 162 235, k)"
    "getCityColor rnd k (Some (js (''G'' @ [CHR 0xF6] @ ''teborg''))) = (Rgb 255 99 132, k)"
    "getCityColor rnd k (Some (js (''Malm'' @ [CHR 0xF6]))) = (Rgb 75 192 192, k)"
    "getCityColor rnd k (Some (js ''Uppsala'')) = (Rgb 255 159 64, k)"
    "getCityColor rnd k (Some (js (''Ume'' @ [CHR 0xE5]))) = (Rgb 153 102 255, k)"
    "getCityColor rnd k (Some (js ''Average'')) = (Rgb 0 0 0, k)"
    by (rule getCityColor_palette, rule palette_six)+
  have single: "cities d = None \<and> temperatures d = Some temps \<and> city d = Some n \<and>
      map_of CITY_COLORS n = Some c \<longrightarrow>
      borderColor (hd (datasets (fst (chartConfig rnd k title d)))) = c \<and>
      backgroundColor (hd (datasets (fst (chartConfig rnd k title d)))) = c"
    using single_palette_colour by blast
  have multi: "cities d = Some entries \<longrightarrow>
      (\<forall>x \<in> set (datasets (fst (chartConfig rnd k title d))).
         label x = Some n \<and> map_of CITY_COLORS n = Some c \<longrightarrow>
         borderColor x = c \<and> backgroundColor x = c)"
    using multi_palette_colour by blast
  have det: "palette_covered d \<longrightarrow>
      fst (chartConfig rnd k title d) = fst (chartConfig rnd' k' title d)"
    using chartConfig_palette by blast
  have rest: "title_text (fst (chartConfig rnd k title d)) = title_text (fst (chartConfig rnd' k' title d))"
    "x_title_text (fst (chartConfig rnd k title d)) = x_title_text (fst (chartConfig rnd' k' title d))"
    "x_ticks (fst (chartConfig rnd k title d)) = x_ticks (fst (chartConfig rnd' k' title d))"
    "labels (fst (chartConfig rnd k title d)) = labels (fst (chartConfig rnd' k' title d))"
    "map label (datasets (fst (chartConfig rnd k title d))) =
       map label (datasets (fst (chartConfig rnd' k' title d)))"
    "map data (datasets (fst (chartConfig rnd k title d))) =
       map data (datasets (fst (chartConfig rnd' k' title d)))"
    using buildDatasets_labels_data [of rnd k d rnd' k']
    by (simp_all add: title_text_chartConfig [of rnd k title d rnd' k'] x_title_text_chartConfig
        x_ticks_chartConfig labels_chartConfig datasets_chartConfig)
  show ?thesis
    using six single multi det rest by (intro conjI)
qed

text \<open>
  The theorem at a single-city payload for Stockholm with a station name, composed under
  two different random sources.
\<close>

theorem palette_colours_deterministic_witness:
  "fst (chartConfig (\<lambda>i. 7) 0 (js ''Temperature Data for Stockholm (Recent)'') example_single) =
   fst (chartConfig (\<lambda>i. i * 31) 12 (js ''Temperature Data for Stockholm (Recent)'') example_single)"
proof -
  have p: "palette_covered example_single"
    by (simp add: palette_covered_def example_single_def to_str_def CITY_COLORS_def)
  from palette_colours_deterministic [where rnd = "\<lambda>i. 7" and k = 0 and d = example_single
      and title = "js ''Temperature Data for Stockholm (Recent)''" and rnd' = "\<lambda>i. i * 31"
      and k' = 12] p
  show ?thesis by blast
qed

text \<open>
  Claim C10: when the payload has a \<open>cities\<close> object, the datasets are those of the entries
  of \<open>cities\<close> followed by the average dataset if there is one, and they do not depend on
  \<open>temperatures\<close>, \<open>city\<close> or \<open>station_name\<close>.
\<close>

theorem cities_take_precedence:
  "cities d = Some entries \<Longrightarrow>
   datasets (fst (chartConfig rnd k title d)) =
     fst (cityDatasets rnd k entries) @
       (case average d of None \<Rightarrow> [] | Some avg \<Rightarrow> [averageDataset avg]) \<and>
   datasets (fst (chartConfig rnd k title (d\<lparr>temperatures := t, city := c, station_name := sn\<rparr>))) =
     datasets (fst (chartConfig rnd k title d))"
  by (simp add: datasets_chartConfig buildDatasets_cities)

text \<open>
  The theorem at a payload that has \<open>cities\<close> as well as \<open>city\<close>, \<open>temperatures\<close> and
  \<open>station_name\<close>.
\<close>

theorem cities_take_precedence_witness:
  "datasets (fst (chartConfig (\<lambda>i. 7) 0 (js ''Temperature Data for Major Swedish Cities'')
      (example_multi\<lparr>temperatures := None, city := None, station_name := None\<rparr>))) =
   datasets (fst (chartConfig (\<lambda>i. 7) 0 (js ''Temperature Data for Major Swedish Cities'')
      example_multi))"
proof -
  have c: "cities example_multi =
      Some [(js ''Stockholm'', [Some 1, None]), (js ''Kiruna'', [Some (-12), Some (-10)])]"
    by (simp add: example_multi_def)
  from cities_take_precedence [OF c] show ?thesis by blast
qed

section \<open>App.vue and CitySearch.vue: lemmas\<close>

lemmas app_defs =
  fetchAllCitiesData_def fetchAllCitiesData_resume_def fetchCityData_def
  fetchCityData_resume_def handleCitySelect_def selectMajorCity_def toggleDataType_def
  goBackToAllCities_def searchCity_def searchCity_resume_def store_cities_def selectCity_def

lemmas run_defs = run_def step_def init_def app_defs Let_def MAJOR_CITIES_def

lemmas plain_defs =
  fetchAllCitiesData_plain_def fetchAllCitiesData_plain_resume_def fetchCityData_plain_def
  fetchCityData_plain_resume_def handleCitySelect_plain_def selectMajorCity_plain_def
  goBackToAllCities_plain_def

lemmas run_plain_defs = run_plain_def step_plain_def init_plain_def plain_defs

lemma run_snoc: "run origin (es @ [e]) = step origin e (run origin es)"
  by (simp add: run_def)

lemma run_plain_snoc: "run_plain origin (es @ [e]) = step_plain origin e (run_plain origin es)"
  by (simp add: run_plain_def)

lemma flags_exclusive_step:
  "\<not> (showHistorical s \<and> showMonthly s) \<Longrightarrow>
   \<not> (showHistorical (step origin e s) \<and> showMonthly (step origin e s))"
  by (cases e)
     (auto simp: step_def app_defs Let_def
           split: outcome.splits option.splits failure.splits if_splits)

lemma flags_exclusive_run:
  "\<not> (showHistorical (run origin es) \<and> showMonthly (run origin es))"
proof (induction es rule: rev_induct)
  case Nil
  show ?case by (simp add: run_def init_def)
next
  case (snoc e es)
  then show ?case
    unfolding run_snoc by (rule flags_exclusive_step)
qed

lemma toggleDataType_exclusive:
  "\<not> (showHistorical s \<and> showMonthly s) \<Longrightarrow>
   toggleDataType p s =
    (if selectedCity s = None \<or> p = currentDataType s then s
     else s\<lparr>showHistorical := (p = Historical), showMonthly := (p = Monthly),
            loading := True, error := [],
            requests := requests s @ [endpoint (name (heap s (the (selectedCity s)))) p]\<rparr>)"
  by (cases p)
     (auto simp: toggleDataType_def currentDataType_def fetchCityData_def Let_def
           split: option.splits)

lemma fetchAllCitiesData_resume_keeps_chart:
  "chartData (fetchAllCitiesData_resume (Rejected f) s) = chartData s"
  by (simp add: fetchAllCitiesData_resume_def)

text \<open>
  The city fetch clears the chart on every failure but one: a 404 whose body is \<open>null\<close>,
  where the read of \<open>detail\<close> throws before the message and the chart are set.
\<close>

lemma fetchCityData_resume_clears_chart:
  "f \<noteq> ErrorResponse 404 None \<Longrightarrow>
   chartData (fetchCityData_resume cityName (Rejected f) s) = None \<and>
   loading (fetchCityData_resume cityName (Rejected f) s) = False \<and>
   uncaught (fetchCityData_resume cityName (Rejected f) s) = uncaught s"
  by (auto simp: fetchCityData_resume_def split: failure.splits option.splits)

lemma fetchCityData_resume_null_body:
  "fetchCityData_resume cityName (Rejected (ErrorResponse 404 None)) s =
     s\<lparr>loading := False, uncaught := uncaught s @ [TypeError]\<rparr>"
  by (simp add: fetchCityData_resume_def)

lemma step_heap:
  "a < next_addr s \<Longrightarrow>
   heap (step origin e s) a = heap s a \<or>
   (\<exists>cityName d. e = CitySettled cityName (Resolved (Some d)) \<and> truthy_str (station_name d) \<and>
      selectedCity s = Some a \<and>
      heap (step origin e s) a =
        (heap s a)\<lparr>city_station_name := station_name d, city_station_id := station_id d\<rparr>)"
  by (cases e)
     (auto simp: step_def app_defs Let_def
           split: outcome.splits option.splits failure.splits if_splits)

lemma step_core: "a < next_addr s \<Longrightarrow> core (heap (step origin e s) a) = core (heap s a)"
  using step_heap [of a s origin e] by (auto simp: core_def)

lemma step_next_addr: "next_addr s \<le> next_addr (step origin e s)"
  by (cases e)
     (auto simp: step_def app_defs Let_def
           split: outcome.splits option.splits failure.splits if_splits)

lemma fold_step_core:
  "a < next_addr s \<Longrightarrow> core (heap (fold (step origin) es s) a) = core (heap s a)"
proof (induction es arbitrary: s)
  case Nil
  show ?case by simp
next
  case (Cons e es)
  have "a < next_addr (step origin e s)"
    using Cons.prems step_next_addr [of s origin e] by linarith
  then have "core (heap (fold (step origin) es (step origin e s)) a) = core (heap (step origin e s) a)"
    by (rule Cons.IH)
  then show ?case
    by (simp add: step_core [OF Cons.prems])
qed

lemma run_select: 
  "next_addr (run example_origin [Mounted, MajorCityClicked (js ''Stockholm'')]) = 1"
  "selectedCity (run example_origin [Mounted, MajorCityClicked (js ''Stockholm'')]) = Some 0"
  "heap (run example_origin [Mounted, MajorCityClicked (js ''Stockholm'')]) 0 =
     \<lparr>city_id = Some 97400, name = js ''Stockholm'', latitude = None, longitude = None,
      city_station_name = None, city_station_id = None\<rparr>"
  by (simp_all add: run_defs)


subsection \<open>The two variants of the top-level view\<close>

lemma sim_request:
  "sim origin sf sp \<Longrightarrow> same_request origin u v \<Longrightarrow>
   sim origin (sf\<lparr>requests := requests sf @ [u]\<rparr>) (sp\<lparr>requests := requests sp @ [v]\<rparr>)"
  by (simp add: sim_def list_all2_appendI)

lemma sim_fetchAllCitiesData:
  "sim origin sf sp \<Longrightarrow> sim origin (fetchAllCitiesData sf) (fetchAllCitiesData_plain origin sp)"
  by (simp add: sim_def fetchAllCitiesData_def fetchAllCitiesData_plain_def same_request_def
        list_all2_appendI)

lemma sim_fetchAllCitiesData_resume:
  "sim origin sf sp \<Longrightarrow>
   sim origin (fetchAllCitiesData_resume r sf) (fetchAllCitiesData_plain_resume r sp)"
  by (simp add: sim_def fetchAllCitiesData_resume_def fetchAllCitiesData_plain_resume_def
        split: outcome.splits)

lemma sim_fetchCityData:
  "sim origin sf sp \<Longrightarrow>
   sim origin (fetchCityData n (currentDataType sf) sf) (fetchCityData_plain origin n sp)"
  by (simp add: sim_def fetchCityData_def fetchCityData_plain_def same_request_def
        endpoint_def currentDataType_def list_all2_appendI)

lemma sim_fetchCityData_resume:
  "sim origin sf sp \<Longrightarrow>
   sim origin (fetchCityData_resume n r sf) (fetchCityData_plain_resume n r sp)"
proof (cases r)
  case (Resolved x)
  assume s: "sim origin sf sp"
  show ?thesis
  proof (cases x)
    case None
    with Resolved s show ?thesis
      by (simp add: sim_def fetchCityData_resume_def fetchCityData_plain_resume_def)
  next
    case (Some d)
    with Resolved s show ?thesis
      by (simp add: sim_def fetchCityData_resume_def fetchCityData_plain_resume_def Let_def
            core_def split: option.splits)
  qed
next
  case (Rejected f)
  assume s: "sim origin sf sp"
  with Rejected show ?thesis
    by (simp add: sim_def fetchCityData_resume_def fetchCityData_plain_resume_def
          split: failure.splits option.splits)
qed

lemma sim_select:
  "sim origin sf sp \<Longrightarrow> sim origin (sf\<lparr>selectedCity := c\<rparr>) (sp\<lparr>selectedCity := c\<rparr>)"
  by (simp add: sim_def)

lemma sim_name: "sim origin sf sp \<Longrightarrow> name (heap sf a) = name (heap sp a)"
  by (simp add: sim_def core_def)

lemma sim_handleCitySelect:
  assumes "sim origin sf sp"
  shows "sim origin (handleCitySelect c sf) (handleCitySelect_plain origin c sp)"
proof -
  let ?sf = "sf\<lparr>selectedCity := Some c\<rparr>" and ?sp = "sp\<lparr>selectedCity := Some c\<rparr>"
  have s: "sim origin ?sf ?sp"
    using assms by (rule sim_select)
  have n: "name (heap ?sf c) = name (heap ?sp c)"
    using s by (rule sim_name)
  show ?thesis
    unfolding handleCitySelect_def handleCitySelect_plain_def Let_def n
    using s by (rule sim_fetchCityData)
qed

lemma sim_selectCity:
  assumes "sim origin sf sp"
  shows "sim origin (selectCity handleCitySelect c sf)
           (selectCity (handleCitySelect_plain origin) c sp)"
proof -
  have "sim origin (handleCitySelect c sf) (handleCitySelect_plain origin c sp)"
    using assms by (rule sim_handleCitySelect)
  then show ?thesis
    by (simp add: selectCity_def sim_def)
qed

lemma sim_selectMajorCity:
  assumes "sim origin sf sp"
  shows "sim origin (selectMajorCity n sf) (selectMajorCity_plain origin n sp)"
proof -
  let ?obj = "\<lparr>city_id = map_of MAJOR_CITIES n, name = n, latitude = None, longitude = None,
      city_station_name = None, city_station_id = None\<rparr>"
  let ?sf = "sf\<lparr>heap := (heap sf)(next_addr sf := ?obj), next_addr := next_addr sf + 1,
      selectedCity := Some (next_addr sf)\<rparr>"
  let ?sp = "sp\<lparr>heap := (heap sp)(next_addr sp := ?obj), next_addr := next_addr sp + 1,
      selectedCity := Some (next_addr sp)\<rparr>"
  have s: "sim origin ?sf ?sp"
    using assms by (simp add: sim_def)
  show ?thesis
    unfolding selectMajorCity_def selectMajorCity_plain_def Let_def
    using s by (rule sim_fetchCityData)
qed

lemma sim_goBackToAllCities:
  assumes "sim origin sf sp"
  shows "sim origin (goBackToAllCities sf) (goBackToAllCities_plain origin sp)"
proof -
  have "sim origin (sf\<lparr>selectedCity := None, showHistorical := False, showMonthly := False\<rparr>)
      (sp\<lparr>selectedCity := None\<rparr>)"
    using assms by (simp add: sim_def)
  then show ?thesis
    unfolding goBackToAllCities_def goBackToAllCities_plain_def
    by (rule sim_fetchAllCitiesData)
qed

lemma sim_searchCity:
  "sim origin sf sp \<Longrightarrow> sim origin (searchCity origin sf) (searchCity origin sp)"
  by (simp add: sim_def searchCity_def same_request_def list_all2_appendI)

lemma sim_searchCity_resume:
  "sim origin sf sp \<Longrightarrow> sim origin (searchCity_resume r sf) (searchCity_resume r sp)"
  by (auto simp: sim_def searchCity_resume_def store_cities_def Let_def split: outcome.splits)

lemma sim_typed:
  "sim origin sf sp \<Longrightarrow> sim origin (sf\<lparr>searchTerm := t\<rparr>) (sp\<lparr>searchTerm := t\<rparr>)"
  by (simp add: sim_def)

lemma sim_step:
  assumes "sim origin sf sp" "\<forall>p. e \<noteq> DataTypeClicked p"
  shows "sim origin (step origin e sf) (step_plain origin e sp)"
proof -
  have eq: "search_loading sf = search_loading sp" "results sf = results sp"
    "selectedCity sf = selectedCity sp"
    using assms(1) by (simp_all add: sim_def)
  show ?thesis
  proof (cases e)
    case (DataTypeClicked p)
    with assms(2) show ?thesis by simp
  qed (simp_all add: step_def step_plain_def eq assms(1) sim_fetchAllCitiesData
        sim_fetchAllCitiesData_resume sim_fetchCityData_resume sim_selectCity
        sim_selectMajorCity sim_goBackToAllCities sim_searchCity sim_searchCity_resume sim_typed)
qed

lemma sim_init: "sim origin init init_plain"
  by (simp add: sim_def init_def init_plain_def)

lemma sim_run:
  "\<forall>p. DataTypeClicked p \<notin> set es \<Longrightarrow> sim origin (run origin es) (run_plain origin es)"
proof (induction es rule: rev_induct)
  case Nil
  show ?case by (simp add: run_def run_plain_def sim_init)
next
  case (snoc e es)
  then have "sim origin (run origin es) (run_plain origin es)" and "\<forall>p. e \<noteq> DataTypeClicked p"
    by auto
  then show ?case
    unfolding run_snoc run_plain_snoc by (rule sim_step)
qed


section \<open>App.vue and CitySearch.vue: the claims\<close>

text \<open>
  Claim C1 does not hold for the all-cities fetch: when \<open>GET /api/graph/cities\<close> fails,
  \<open>fetchAllCitiesData\<close> sets the error message and clears the loading flag, but leaves
  \<open>chartData\<close> as it was. After the run below the chart still holds the payload of
  Stockholm although no city is selected. (\<open>fetchCityData\<close> clears \<open>chartData\<close> in its
  \<open>catch\<close> block.)
\<close>

theorem all_cities_failure_keeps_chart:
  "chartData (run example_origin example_back_fails) = Some example_single \<and>
   selectedCity (run example_origin example_back_fails) = None \<and>
   loading (run example_origin example_back_fails) = False \<and>
   error (run example_origin example_back_fails) =
     js ''Failed to load temperature data. Please try again later.''"
  by (simp add: example_back_fails_def run_defs example_single_def truthy_str_def)

text \<open>
  Claim C3, as amended: no sequence of events changes \<open>id\<close>, \<open>name\<close>, \<open>latitude\<close> or
  \<open>longitude\<close> of a City object that exists; an event leaves every existing City
  object as it is, except that the settling of a city fetch with a payload that has a
  non-empty \<open>station_name\<close> writes the payload's \<open>station_name\<close> and \<open>station_id\<close> into
  the City that is selected at that moment.
\<close>

theorem city_core_fields_immutable:
  "a < next_addr s \<Longrightarrow>
   city_id (heap (fold (step origin) es s) a) = city_id (heap s a) \<and>
   name (heap (fold (step origin) es s) a) = name (heap s a) \<and>
   latitude (heap (fold (step origin) es s) a) = latitude (heap s a) \<and>
   longitude (heap (fold (step origin) es s) a) = longitude (heap s a) \<and>
   (heap (step origin e s) a = heap s a \<or>
    (\<exists>cityName d. e = CitySettled cityName (Resolved (Some d)) \<and>
       truthy_str (station_name d) \<and> selectedCity s = Some a \<and>
       heap (step origin e s) a =
         (heap s a)\<lparr>city_station_name := station_name d, city_station_id := station_id d\<rparr>))"
  using fold_step_core [of a s origin es] step_heap [of a s origin e]
  by (simp add: core_def)

text \<open>The theorem at the City made for the Stockholm shortcut, over two later events.\<close>

theorem city_core_fields_immutable_witness:
  "name (heap (fold (step example_origin)
       [CitySettled (js ''Stockholm'') (Resolved (Some example_single)), BackClicked]
       (run example_origin [Mounted, MajorCityClicked (js ''Stockholm'')])) 0) =
   js ''Stockholm''"
proof -
  have a: "0 < next_addr (run example_origin [Mounted, MajorCityClicked (js ''Stockholm'')])"
    by (simp add: run_select)
  from city_core_fields_immutable [OF a, of example_origin
      "[CitySettled (js ''Stockholm'') (Resolved (Some example_single)), BackClicked]"]
  show ?thesis
    by (simp add: run_select)
qed

text \<open>
  Claim C3 as stated fails: the City object made for the Stockholm shortcut is changed
  when its fetch settles with a payload that names a station.
\<close>

theorem city_object_mutated_counterexample:
  "0 < next_addr (run example_origin [Mounted, MajorCityClicked (js ''Stockholm'')]) \<and>
   heap (step example_origin (CitySettled (js ''Stockholm'') (Resolved (Some example_single)))
      (run example_origin [Mounted, MajorCityClicked (js ''Stockholm'')])) 0 \<noteq>
   heap (run example_origin [Mounted, MajorCityClicked (js ''Stockholm'')]) 0"
  by (simp add: run_select step_def fetchCityData_resume_def example_single_def truthy_str_def Let_def)

text \<open>
  Claim C4, as amended: when a city fetch fails with status 404 and a body that is not
  \<open>null\<close>, the error message is the body's \<open>detail\<close> if that is a non-empty string, and
  \<open>No data found for <city>\<close> if the body has no \<open>detail\<close> or an empty one; every
  failure of a city fetch that is not a response with status 404 gives
  \<open>Failed to load data for <city>. Please try again.\<close>, and every failure of the
  all-cities fetch gives one fixed message; none of them depends on the failure.
\<close>

theorem city_fetch_error_messages:
  "error (fetchCityData_resume cityName (Rejected (ErrorResponse 404 (Some b))) s) =
     (case detail b of
        Some d \<Rightarrow> if d \<noteq> [] then d else js ''No data found for '' @ cityName
      | None \<Rightarrow> js ''No data found for '' @ cityName) \<and>
   ((\<forall>body. f \<noteq> ErrorResponse 404 body) \<longrightarrow>
      error (fetchCityData_resume cityName (Rejected f) s) =
        js ''Failed to load data for '' @ cityName @ js ''. Please try again.'') \<and>
   error (fetchAllCitiesData_resume (Rejected f) s) =
     js ''Failed to load temperature data. Please try again later.''"
  by (auto simp: fetchCityData_resume_def fetchAllCitiesData_resume_def failed_to_load_def
        truthy_str_def to_str_def split: failure.splits option.splits)

text \<open>The theorem at a response with status 500.\<close>

theorem city_fetch_error_messages_witness:
  "error (fetchCityData_resume (js ''Lund'') (Rejected (ErrorResponse 500 None)) init) =
     js ''Failed to load data for Lund. Please try again.''"
  using city_fetch_error_messages [where cityName = "js ''Lund''" and s = init
      and f = "ErrorResponse 500 None"]
  by (simp flip: js_append)

text \<open>
  Claim C4 as stated fails: a 404 body whose \<open>detail\<close> is the empty string contains a
  detail string, and the message is not that string.
\<close>

theorem empty_detail_counterexample:
  "\<not> (error (fetchCityData_resume (js ''Lund'')
          (Rejected (ErrorResponse 404 (Some \<lparr>detail = Some []\<rparr>))) init) =
        the (detail \<lparr>detail = Some []\<rparr>))"
  by (simp add: fetchCityData_resume_def truthy_str_def)

text \<open>
  Claim C6: in every state that a sequence of events reaches, \<open>toggleDataType p\<close> changes
  nothing (no flag, no request) when no city is selected or \<open>p\<close> is the current period;
  otherwise it sets the flags to \<open>p\<close>, leaves the selected city as it is, and dispatches
  exactly one request, to the endpoint of the selected city's name and \<open>p\<close>:
  \<open>/api/graph/historical/<name>\<close>, \<open>/api/graph/monthly/<name>\<close> or
  \<open>/api/graph/city/<name>\<close>.
\<close>

theorem setPeriod_on_runs:
  "toggleDataType p (run origin es) =
     (if selectedCity (run origin es) = None \<or> p = currentDataType (run origin es)
      then run origin es
      else (run origin es)
        \<lparr>showHistorical := (p = Historical), showMonthly := (p = Monthly),
         loading := True, error := [],
         requests := requests (run origin es) @
           [endpoint (name (heap (run origin es) (the (selectedCity (run origin es))))) p]\<rparr>) \<and>
   (selectedCity (run origin es) \<noteq> None \<longrightarrow>
      currentDataType (toggleDataType p (run origin es)) = p) \<and>
   endpoint n Historical = js ''/api/graph/historical/'' @ n \<and>
   endpoint n Monthly = js ''/api/graph/monthly/'' @ n \<and>
   endpoint n Recent = js ''/api/graph/city/'' @ n"
proof -
  have ex: "\<not> (showHistorical (run origin es) \<and> showMonthly (run origin es))"
    by (rule flags_exclusive_run)
  note eq = toggleDataType_exclusive [OF ex, of p]
  have cur: "selectedCity (run origin es) \<noteq> None \<longrightarrow>
      currentDataType (toggleDataType p (run origin es)) = p"
    unfolding eq by (cases p) (auto simp: currentDataType_def)
  show ?thesis
    using eq cur by (simp add: endpoint_def)
qed

text \<open>The theorem after the Stockholm shortcut, for the historical period.\<close>

theorem setPeriod_on_runs_witness:
  "requests (toggleDataType Historical
      (run example_origin [Mounted, MajorCityClicked (js ''Stockholm'')])) =
   [js ''/api/graph/cities'', js ''/api/graph/city/Stockholm'',
    js ''/api/graph/historical/Stockholm'']"
proof -
  let ?s = "run example_origin [Mounted, MajorCityClicked (js ''Stockholm'')]"
  have sel: "selectedCity ?s = Some 0" and cur: "currentDataType ?s = Recent"
    and nm: "name (heap ?s 0) = js ''Stockholm''"
    and rq: "requests ?s = [js ''/api/graph/cities'', js ''/api/graph/city/Stockholm'']"
    by (simp_all add: run_defs currentDataType_def endpoint_def flip: js_append)
  from setPeriod_on_runs [of Historical example_origin
      "[Mounted, MajorCityClicked (js ''Stockholm'')]" "js ''Stockholm''"]
  show ?thesis
    by (simp add: sel cur nm rq flip: js_append)
qed

text \<open>
  Claim C8, as amended: a search with a term of fewer than two UTF-16 code units (the
  \<open>.length\<close> of the string) only sets the validation message: no request is dispatched and
  nothing else changes. A longer term dispatches exactly one request. The call itself never
  changes the result list (only the settling of a dispatched request does).
\<close>

theorem short_query_rejected:
  "(length (searchTerm s) < 2 \<longrightarrow>
      searchCity origin s = s\<lparr>search_error := js ''Please enter at least 2 characters''\<rparr> \<and>
      requests (searchCity origin s) = requests s) \<and>
   (2 \<le> length (searchTerm s) \<longrightarrow>
      requests (searchCity origin s) =
        requests s @ [origin @ js ''/api/cities/search/'' @ searchTerm s]) \<and>
   results (searchCity origin s) = results s"
  by (auto simp: searchCity_def)

text \<open>The theorem at the search term \<open>s\<close>.\<close>

theorem short_query_rejected_witness:
  "requests (searchCity example_origin (init\<lparr>searchTerm := js ''s''\<rparr>)) = [] \<and>
   search_error (searchCity example_origin (init\<lparr>searchTerm := js ''s''\<rparr>)) =
     js ''Please enter at least 2 characters''"
proof -
  have l: "length (searchTerm (init\<lparr>searchTerm := js ''s''\<rparr>)) < 2"
    by simp
  from short_query_rejected [of "init\<lparr>searchTerm := js ''s''\<rparr>" example_origin] l
  have "searchCity example_origin (init\<lparr>searchTerm := js ''s''\<rparr>) =
      init\<lparr>searchTerm := js ''s'', search_error := js ''Please enter at least 2 characters''\<rparr>"
    by simp
  then show ?thesis
    by (simp add: init_def)
qed

text \<open>
  Claim C8 as stated fails: a query of one character outside the Basic Multilingual Plane
  is shorter than two characters, but it has two code units, so the search accepts it
  and dispatches a request.
\<close>

theorem astral_query_counterexample:
  "code_points example_astral < 2 \<and>
   requests (searchCity example_origin (init\<lparr>searchTerm := example_astral\<rparr>)) =
     [example_origin @ js ''/api/cities/search/'' @ example_astral] \<and>
   search_error (searchCity example_origin (init\<lparr>searchTerm := example_astral\<rparr>)) = []"
  by (simp add: example_astral_def is_high_surrogate_def is_low_surrogate_def searchCity_def
        init_def)

text \<open>
  Claim C9: over every sequence of events without a click on a period
  button, the two variants dispatch the same requests in the same order (the variant
  without the toggle writes the origin in front of each URL, \<open>App.vue\<close> leaves it to the
  base URL for the graph requests), select the same City object at every point, agree on
  \<open>id\<close>, \<open>name\<close>, \<open>latitude\<close> and \<open>longitude\<close> of every City, and agree on the state of
  the search.
\<close>

theorem variants_agree_without_toggle:
  "\<forall>p. DataTypeClicked p \<notin> set es \<Longrightarrow>
   list_all2 (\<lambda>u v. v = u \<or> v = origin @ u)
     (requests (run origin es)) (requests (run_plain origin es)) \<and>
   selectedCity (run origin es) = selectedCity (run_plain origin es) \<and>
   (\<forall>a. city_id (heap (run origin es) a) = city_id (heap (run_plain origin es) a) \<and>
        name (heap (run origin es) a) = name (heap (run_plain origin es) a) \<and>
        latitude (heap (run origin es) a) = latitude (heap (run_plain origin es) a) \<and>
        longitude (heap (run origin es) a) = longitude (heap (run_plain origin es) a)) \<and>
   searchTerm (run origin es) = searchTerm (run_plain origin es) \<and>
   results (run origin es) = results (run_plain origin es) \<and>
   search_loading (run origin es) = search_loading (run_plain origin es) \<and>
   search_error (run origin es) = search_error (run_plain origin es)"
proof -
  assume "\<forall>p. DataTypeClicked p \<notin> set es"
  then have s: "sim origin (run origin es) (run_plain origin es)"
    by (rule sim_run)
  have r: "list_all2 (\<lambda>u v. v = u \<or> v = origin @ u)
     (requests (run origin es)) (requests (run_plain origin es))"
    using s by (simp add: sim_def same_request_def [abs_def])
  have c: "\<And>a. core (heap (run origin es) a) = core (heap (run_plain origin es) a)"
    using s by (simp add: sim_def)
  show ?thesis
    using s r c [unfolded core_def] by (simp add: sim_def)
qed

text \<open>The theorem at the run that selects Stockholm and loads its data.\<close>

theorem variants_agree_without_toggle_witness:
  "selectedCity (run example_origin example_select_and_load) =
     selectedCity (run_plain example_origin example_select_and_load) \<and>
   name (heap (run example_origin example_select_and_load) 0) =
     name (heap (run_plain example_origin example_select_and_load) 0)"
proof -
  have "\<forall>p. DataTypeClicked p \<notin> set example_select_and_load"
    by (simp add: example_select_and_load_def)
  from variants_agree_without_toggle [OF this, of example_origin]
  show ?thesis by blast
qed

text \<open>
  What the toggle variant does in addition on such a sequence: after the user picks
  Stockholm and its data loads, both variants have selected the same City, and the object
  carries the station in \<open>App.vue\<close> only.
\<close>

lemma variants_differ_in_station_fields:
  "(\<forall>p. DataTypeClicked p \<notin> set example_select_and_load) \<and>
   selectedCity (run example_origin example_select_and_load) = Some 0 \<and>
   selectedCity (run_plain example_origin example_select_and_load) = Some 0 \<and>
   heap (run example_origin example_select_and_load) 0 \<noteq>
     heap (run_plain example_origin example_select_and_load) 0"
  by (simp add: example_select_and_load_def run_defs run_plain_defs example_single_def
        truthy_str_def)

end
